theory Spec2Isabelle
  imports Complex_Main "HOL-Library.Sublist"
begin

section \<open>Common vocabulary\<close>

text \<open>
  A JavaScript string is a sequence of code units; it is modelled as a \<open>string\<close>, one
  \<open>char\<close> per code unit, so that \<open>length\<close> is the source's \<open>.length\<close> and \<open>take n\<close>
  is \<open>.slice(0, n)\<close>. A \<open>Date\<close> is the number of milliseconds since the epoch.
\<close>

type_synonym timestamp = int

text \<open>
  A value that may be \<open>null\<close> or \<open>undefined\<close> is an \<open>option\<close>. The guards
  \<open>!user?.id\<close> and \<open>!script?.id\<close> test for a falsy id: an absent one or the empty string.
\<close>

fun truthy :: "string option \<Rightarrow> bool" where
  "truthy None = False"
| "truthy (Some s) = (s \<noteq> [])"

text \<open>Decimal rendering of a non-negative integer inside a template literal or JSX text.\<close>

definition digit_char :: "nat \<Rightarrow> char" where
  "digit_char d = ''0123456789'' ! d"

fun show_nat :: "nat \<Rightarrow> string" where
  "show_nat n = (if n < 10 then [digit_char n] else show_nat (n div 10) @ [digit_char (n mod 10)])"

declare show_nat.simps [simp del]

datatype error =
    NotAuthenticated string
  | BackendError string
  | HttpError string
  | NetworkError string
  | SyntaxError string

section \<open>Sign-up password validation (pages/Auth.tsx)\<close>

text \<open>
  The character classes of the four regular expressions. A range such as \<open>[A-Z]\<close> compares
  code units, here \<open>code c\<close>.
\<close>

definition code :: "char \<Rightarrow> nat" where
  "code c = of_char c"

definition isUpperCase :: "char \<Rightarrow> bool" where
  "isUpperCase c = (code (CHR ''A'') \<le> code c \<and> code c \<le> code (CHR ''Z''))"

definition isLowerCase :: "char \<Rightarrow> bool" where
  "isLowerCase c = (code (CHR ''a'') \<le> code c \<and> code c \<le> code (CHR ''z''))"

definition isNumber :: "char \<Rightarrow> bool" where
  "isNumber c = (code (CHR ''0'') \<le> code c \<and> code c \<le> code (CHR ''9''))"

text \<open>The set \<^verbatim>\<open>[!@#$%^&*(),.?":{}|<>]\<close>; the double quote is \<open>CHR 0x22\<close>.\<close>

definition specialChars :: "char list" where
  "specialChars = ''!@#$%^&*(),.?'' @ [CHR 0x22] @ '':{}|<>''"

definition isSpecialChar :: "char \<Rightarrow> bool" where
  "isSpecialChar c = (c \<in> set specialChars)"

text \<open>\<open>re.test(password)\<close> for a one-character class: some code unit is in the class.\<close>

definition test_class :: "(char \<Rightarrow> bool) \<Rightarrow> string \<Rightarrow> bool" where
  "test_class cls password = list_ex cls password"

text \<open>
  \<open>validatePassword\<close> returns the boolean and sets \<open>passwordError\<close>; the model returns
  both: the message set by \<open>setPasswordError\<close>, then the result.
\<close>

definition validatePassword :: "string \<Rightarrow> string \<times> bool" where
  "validatePassword password =
    (let minLength = 8;
         hasUpperCase = test_class isUpperCase password;
         hasLowerCase = test_class isLowerCase password;
         hasNumbers = test_class isNumber password;
         hasSpecialChar = test_class isSpecialChar password
     in if length password < minLength then
          (''Password must be at least 8 characters long'', False)
        else if \<not> hasUpperCase then
          (''Password must contain at least one uppercase letter'', False)
        else if \<not> hasLowerCase then
          (''Password must contain at least one lowercase letter'', False)
        else if \<not> hasNumbers then
          (''Password must contain at least one number'', False)
        else if \<not> hasSpecialChar then
          (''Password must contain at least one special character'', False)
        else ('''', True))"

section \<open>The hosted backend\<close>

text \<open>
  The tables \<open>scripts\<close> and \<open>events\<close> of the backend, with the columns the application
  reads and writes. The status column holds the strings \<open>DRAFT\<close> and \<open>SAVED\<close>.
\<close>

record script_row =
  s_id :: string
  s_name :: string
  s_reference_date :: timestamp
  s_status :: string
  s_user_id :: string
  s_created_at :: timestamp

record event_row =
  e_id :: string
  e_script_id :: string
  e_user_id :: string
  e_name :: string
  e_description :: string
  e_event_date :: timestamp
  e_script_content :: string

record db =
  scripts :: "script_row list"
  events :: "event_row list"

text \<open>
  Modelled from the spec: the backend client (\<open>integrations/supabase/client\<close>) and the
  service behind it are not among the sources. Section 4.10 of the specification gives
  the contract: row-level create, read, update and delete against the tables, each call
  filtered at the call site. A call is one request. The request either fails, and then
  reports its error and changes nothing, or applies to exactly the rows that satisfy all
  of its \<open>.eq\<close> filters. The parameter \<open>fault\<close> of every call is the error the service
  reports for that request (\<open>None\<close> when the request goes through).
\<close>

definition delete_rows :: "error option \<Rightarrow> ('r \<Rightarrow> bool) \<Rightarrow> 'r list \<Rightarrow> error option \<times> 'r list" where
  "delete_rows fault matches rows =
    (case fault of
       Some e \<Rightarrow> (Some e, rows)
     | None \<Rightarrow> (None, filter (\<lambda>r. \<not> matches r) rows))"

definition update_rows ::
  "error option \<Rightarrow> ('r \<Rightarrow> bool) \<Rightarrow> ('r \<Rightarrow> 'r) \<Rightarrow> 'r list \<Rightarrow> error option \<times> 'r list" where
  "update_rows fault matches change rows =
    (case fault of
       Some e \<Rightarrow> (Some e, rows)
     | None \<Rightarrow> (None, map (\<lambda>r. if matches r then change r else r) rows))"

text \<open>
  Modelled from the spec: \<open>.select().single()\<close> after an insert or an update asks for the
  written row as one object. The service answers with an error, and writes nothing, unless
  exactly one row was written.
\<close>

definition insert_single :: "error option \<Rightarrow> 'r \<Rightarrow> 'r list \<Rightarrow> (error + 'r) \<times> 'r list" where
  "insert_single fault row rows =
    (case fault of
       Some e \<Rightarrow> (Inl e, rows)
     | None \<Rightarrow> (Inr row, rows @ [row]))"

definition update_single ::
  "error option \<Rightarrow> ('r \<Rightarrow> bool) \<Rightarrow> ('r \<Rightarrow> 'r) \<Rightarrow> 'r list \<Rightarrow> (error + 'r) \<times> 'r list" where
  "update_single fault matches change rows =
    (case fault of
       Some e \<Rightarrow> (Inl e, rows)
     | None \<Rightarrow>
        (case filter matches rows of
           [r] \<Rightarrow> (Inr (change r), map (\<lambda>r. if matches r then change r else r) rows)
         | _ \<Rightarrow> (Inl (BackendError ''PGRST116''), rows)))"

text \<open>
  Modelled from the spec: a read returns the rows that satisfy the filters, in ascending
  order of the column named by \<open>.order(..., { ascending: true })\<close>.
\<close>

definition select_ordered ::
  "error option \<Rightarrow> ('r \<Rightarrow> bool) \<Rightarrow> ('r \<Rightarrow> timestamp) \<Rightarrow> 'r list \<Rightarrow> error + 'r list" where
  "select_ordered fault matches column rows =
    (case fault of
       Some e \<Rightarrow> Inl e
     | None \<Rightarrow> Inr (sort_key column (filter matches rows)))"

section \<open>Script mutations (hooks/useScriptMutations.tsx)\<close>

text \<open>
  Each \<open>mutationFn\<close> takes the hook's context (the id of the authenticated user, the id
  of the open script), the faults of the requests it makes, its argument and the tables;
  it returns what the promise settles to (\<open>Inl\<close> for a rejection) and the tables after
  it. The reactions \<open>onSuccess\<close> and \<open>onError\<close> only notify and refresh caches.
\<close>

definition saveScriptMutation ::
  "string option \<Rightarrow> string option \<Rightarrow> error option \<Rightarrow> string \<Rightarrow> string \<Rightarrow> db
    \<Rightarrow> (error + string \<times> string) \<times> db" where
  "saveScriptMutation user_id script_id fault scriptName transactionDetails d =
    (if \<not> truthy user_id \<or> \<not> truthy script_id then
       (Inl (NotAuthenticated ''User not authenticated or script not found''), d)
     else
       (case update_single fault
               (\<lambda>s. s_id s = the script_id \<and> s_user_id s = the user_id)
               (\<lambda>s. s\<lparr>s_name := scriptName, s_status := ''SAVED''\<rparr>)
               (scripts d) of
          (Inl e, rows) \<Rightarrow> (Inl e, d\<lparr>scripts := rows\<rparr>)
        | (Inr data, rows) \<Rightarrow> (Inr (s_name data, s_id data), d\<lparr>scripts := rows\<rparr>)))"

text \<open>
  \<open>now\<close> is \<open>new Date()\<close> at the call; \<open>new_id\<close> and \<open>created_at\<close> are the column
  defaults the service fills in for the inserted row.
\<close>

definition createScriptMutation ::
  "string option \<Rightarrow> error option \<Rightarrow> timestamp \<Rightarrow> string \<Rightarrow> timestamp \<Rightarrow> db
    \<Rightarrow> (error + script_row) \<times> db" where
  "createScriptMutation user_id fault now new_id created_at d =
    (if \<not> truthy user_id then (Inl (NotAuthenticated ''User not authenticated''), d)
     else
       (case insert_single fault
               \<lparr>s_id = new_id, s_name = ''New Script*'', s_reference_date = now,
                s_status = ''DRAFT'', s_user_id = the user_id, s_created_at = created_at\<rparr>
               (scripts d) of
          (Inl e, rows) \<Rightarrow> (Inl e, d\<lparr>scripts := rows\<rparr>)
        | (Inr data, rows) \<Rightarrow> (Inr data, d\<lparr>scripts := rows\<rparr>)))"

definition deleteDraftScriptMutation ::
  "string option \<Rightarrow> error option \<Rightarrow> error option \<Rightarrow> string \<Rightarrow> db \<Rightarrow> (error + unit) \<times> db" where
  "deleteDraftScriptMutation user_id eventsFault scriptFault scriptId d =
    (if \<not> truthy user_id then (Inl (NotAuthenticated ''User not authenticated''), d)
     else
       (case delete_rows eventsFault
               (\<lambda>e. e_script_id e = scriptId \<and> e_user_id e = the user_id) (events d) of
          (Some eventsError, rows) \<Rightarrow> (Inl eventsError, d\<lparr>events := rows\<rparr>)
        | (None, rows) \<Rightarrow>
           (let d1 = d\<lparr>events := rows\<rparr> in
            case delete_rows scriptFault
                   (\<lambda>s. s_id s = scriptId \<and> s_user_id s = the user_id \<and> s_status s = ''DRAFT'')
                   (scripts d1) of
              (Some scriptError, rows') \<Rightarrow> (Inl scriptError, d1\<lparr>scripts := rows'\<rparr>)
            | (None, rows') \<Rightarrow> (Inr (), d1\<lparr>scripts := rows'\<rparr>))))"

section \<open>Draft deletion from the sidebar (hooks/useDraftDeletion.tsx)\<close>

definition deleteDraftMutation ::
  "string option \<Rightarrow> error option \<Rightarrow> error option \<Rightarrow> string \<Rightarrow> db \<Rightarrow> (error + unit) \<times> db" where
  "deleteDraftMutation user_id eventsFault scriptFault scriptId d =
    (if \<not> truthy user_id then (Inl (NotAuthenticated ''User not authenticated''), d)
     else
       (case delete_rows eventsFault
               (\<lambda>e. e_script_id e = scriptId \<and> e_user_id e = the user_id) (events d) of
          (Some eventsError, rows) \<Rightarrow> (Inl eventsError, d\<lparr>events := rows\<rparr>)
        | (None, rows) \<Rightarrow>
           (let d1 = d\<lparr>events := rows\<rparr> in
            case delete_rows scriptFault
                   (\<lambda>s. s_id s = scriptId \<and> s_user_id s = the user_id \<and> s_status s = ''DRAFT'')
                   (scripts d1) of
              (Some scriptError, rows') \<Rightarrow> (Inl scriptError, d1\<lparr>scripts := rows'\<rparr>)
            | (None, rows') \<Rightarrow> (Inr (), d1\<lparr>scripts := rows'\<rparr>))))"

text \<open>The title of the notification shown by \<open>onSuccess\<close> or \<open>onError\<close>.\<close>

definition deleteDraftMutation_toast :: "error + unit \<Rightarrow> string" where
  "deleteDraftMutation_toast outcome =
    (case outcome of
       Inr _ \<Rightarrow> ''Draft deleted successfully''
     | Inl _ \<Rightarrow> ''Error deleting draft'')"

section \<open>Reading the events of a script (hooks/useEventsQuery)\<close>

text \<open>The \<open>Event\<close> objects the pages work with.\<close>

record Event =
  ev_id :: string
  ev_eventDate :: timestamp
  ev_script :: string
  ev_name :: string
  ev_description :: string

definition to_Event :: "event_row \<Rightarrow> Event" where
  "to_Event event =
    \<lparr>ev_id = e_id event, ev_eventDate = e_event_date event, ev_script = e_script_content event,
     ev_name = e_name event, ev_description = e_description event\<rparr>"

text \<open>
  The \<open>queryFn\<close> of \<open>useEventsQuery\<close>; a disabled query leaves \<open>events\<close> at its default
  \<open>[]\<close>, which is also what the first line of \<open>queryFn\<close> returns.
\<close>

definition useEventsQuery ::
  "string option \<Rightarrow> string option \<Rightarrow> error option \<Rightarrow> db \<Rightarrow> error + Event list" where
  "useEventsQuery script_id user_id fault d =
    (if \<not> truthy script_id \<or> \<not> truthy user_id then Inr []
     else
       (case select_ordered fault
               (\<lambda>e. e_script_id e = the script_id \<and> e_user_id e = the user_id)
               e_event_date (events d) of
          Inl e \<Rightarrow> Inl e
        | Inr data \<Rightarrow> Inr (map to_Event data)))"

section \<open>Event mutations (hooks/useEventMutations)\<close>

text \<open>
  \<open>Partial<Event>\<close>: each field may be left out. The handlers never supply an \<open>id\<close> and
  the mutation does not read one.
\<close>

record Partial_Event =
  p_eventDate :: "timestamp option"
  p_script :: "string option"
  p_name :: "string option"
  p_description :: "string option"

text \<open>
  The object passed to \<open>.update\<close>. A property whose value is \<open>undefined\<close> is left out when
  the request body is serialised, so only the columns that are \<open>Some\<close> are written.
\<close>

record event_patch =
  patch_name :: "string option"
  patch_description :: "string option"
  patch_event_date :: "timestamp option"
  patch_script_content :: "string option"

definition apply_patch :: "event_patch \<Rightarrow> event_row \<Rightarrow> event_row" where
  "apply_patch p e =
    e\<lparr>e_name := (case patch_name p of None \<Rightarrow> e_name e | Some v \<Rightarrow> v),
      e_description := (case patch_description p of None \<Rightarrow> e_description e | Some v \<Rightarrow> v),
      e_event_date := (case patch_event_date p of None \<Rightarrow> e_event_date e | Some v \<Rightarrow> v),
      e_script_content :=
        (case patch_script_content p of None \<Rightarrow> e_script_content e | Some v \<Rightarrow> v)\<rparr>"

record update_args =
  eventId :: string
  updates :: Partial_Event

definition updateEventMutation ::
  "string option \<Rightarrow> error option \<Rightarrow> update_args \<Rightarrow> db \<Rightarrow> (error + unit) \<times> db" where
  "updateEventMutation user_id fault args d =
    (if \<not> truthy user_id then (Inl (NotAuthenticated ''User not authenticated''), d)
     else
       (case update_rows fault
               (\<lambda>e. e_id e = eventId args \<and> e_user_id e = the user_id)
               (apply_patch
                  \<lparr>patch_name = p_name (updates args),
                   patch_description = p_description (updates args),
                   patch_event_date = p_eventDate (updates args),
                   patch_script_content = p_script (updates args)\<rparr>)
               (events d) of
          (Some e, rows) \<Rightarrow> (Inl e, d\<lparr>events := rows\<rparr>)
        | (None, rows) \<Rightarrow> (Inr (), d\<lparr>events := rows\<rparr>)))"

section \<open>The handlers of the events page (hooks/useEventsHandlers)\<close>

text \<open>
  A handler receives \<open>isModifyMode\<close> and the \<open>mutate\<close> function of the update mutation, and
  acts on the world \<open>w\<close> that \<open>mutate\<close> acts on. Returning \<open>w\<close> itself is the early
  \<open>return\<close>: nothing was called.
\<close>

definition no_updates :: Partial_Event where
  "no_updates = \<lparr>p_eventDate = None, p_script = None, p_name = None, p_description = None\<rparr>"

definition handleScriptChange ::
  "bool \<Rightarrow> (update_args \<Rightarrow> 'w \<Rightarrow> 'w) \<Rightarrow> string \<Rightarrow> string \<Rightarrow> 'w \<Rightarrow> 'w" where
  "handleScriptChange isModifyMode mutate event_id v w =
    (if \<not> isModifyMode then w
     else mutate \<lparr>eventId = event_id, updates = no_updates\<lparr>p_script := Some v\<rparr>\<rparr> w)"

definition handleDateChange ::
  "bool \<Rightarrow> (update_args \<Rightarrow> 'w \<Rightarrow> 'w) \<Rightarrow> string \<Rightarrow> timestamp option \<Rightarrow> 'w \<Rightarrow> 'w" where
  "handleDateChange isModifyMode mutate event_id v w =
    (if \<not> isModifyMode \<or> v = None then w
     else mutate \<lparr>eventId = event_id, updates = no_updates\<lparr>p_eventDate := v\<rparr>\<rparr> w)"

definition handleNameChange ::
  "bool \<Rightarrow> (update_args \<Rightarrow> 'w \<Rightarrow> 'w) \<Rightarrow> string \<Rightarrow> string \<Rightarrow> 'w \<Rightarrow> 'w" where
  "handleNameChange isModifyMode mutate event_id name w =
    (if \<not> isModifyMode then w
     else mutate \<lparr>eventId = event_id, updates = no_updates\<lparr>p_name := Some name\<rparr>\<rparr> w)"

definition handleDescriptionChange ::
  "bool \<Rightarrow> (update_args \<Rightarrow> 'w \<Rightarrow> 'w) \<Rightarrow> string \<Rightarrow> string \<Rightarrow> 'w \<Rightarrow> 'w" where
  "handleDescriptionChange isModifyMode mutate event_id description w =
    (if \<not> isModifyMode then w
     else mutate \<lparr>eventId = event_id, updates = no_updates\<lparr>p_description := Some description\<rparr>\<rparr> w)"

text \<open>
  \<open>updateEventMutation.mutate\<close> on the tables: it runs the \<open>mutationFn\<close> and keeps the
  tables it leaves; the outcome goes to the notifications.
\<close>

definition mutate_events :: "string option \<Rightarrow> error option \<Rightarrow> update_args \<Rightarrow> db \<Rightarrow> db" where
  "mutate_events user_id fault args d = snd (updateEventMutation user_id fault args d)"

section \<open>The header of the events page (components/EventsHeader)\<close>

text \<open>
  The component keeps \<open>scriptName\<close> in a state variable and reports every change to its
  parent through the optional \<open>onScriptNameChange\<close>; \<open>p\<close> is the parent's state.
\<close>

definition handleScriptNameChange ::
  "(string \<Rightarrow> 'p \<Rightarrow> 'p) option \<Rightarrow> string \<Rightarrow> string \<times> 'p \<Rightarrow> string \<times> 'p" where
  "handleScriptNameChange onScriptNameChange v st =
    (let limitedValue = take 60 v;
         (scriptName, p) = st
     in case onScriptNameChange of
          Some callback \<Rightarrow> (limitedValue, callback limitedValue p)
        | None \<Rightarrow> (limitedValue, p))"

text \<open>
  The element under the title: its \<open>className\<close> and its text, or nothing. The class
  \<open>text-red-500\<close> is the warning colour.
\<close>

definition name_counter :: "string \<Rightarrow> bool \<Rightarrow> (string \<times> string) option" where
  "name_counter scriptName isModifyMode =
    (if length scriptName \<ge> 60 \<and> isModifyMode then
       Some (''text-xs text-red-500 font-medium'',
             show_nat (length scriptName) @ ''/60 characters'')
     else None)"

text \<open>
  The parent passes \<open>useEventsHandlers.handleScriptNameChange\<close>, which calls
  \<open>setCurrentScriptName\<close>, that is \<open>updateCurrentScriptName\<close> of \<open>useEventsState\<close>. Of the
  page's state it touches the two variables below; \<open>status\<close> is the status of the open
  script.
\<close>

record events_state =
  hasUnsavedChanges :: bool
  currentScriptName :: string

definition updateCurrentScriptName :: "string option \<Rightarrow> string \<Rightarrow> events_state \<Rightarrow> events_state" where
  "updateCurrentScriptName status name st =
    (let st1 = st\<lparr>currentScriptName := name\<rparr>
     in if status \<noteq> Some ''DRAFT'' then st1\<lparr>hasUnsavedChanges := True\<rparr> else st1)"

definition useEventsHandlers_handleScriptNameChange ::
  "(string \<Rightarrow> 'p \<Rightarrow> 'p) \<Rightarrow> string \<Rightarrow> 'p \<Rightarrow> 'p" where
  "useEventsHandlers_handleScriptNameChange setCurrentScriptName name p =
    setCurrentScriptName name p"

section \<open>The market data client\<close>








section \<open>The functional if (the smoothing agent's notes)\<close>

text \<open>\<open>fIf(x,a,b,\<epsilon>) = b + (a-b)/\<epsilon> \<cdot> max(0, min(\<epsilon>, x + \<epsilon>/2))\<close>\<close>

definition fIf :: "real \<Rightarrow> real \<Rightarrow> real \<Rightarrow> real \<Rightarrow> real" where
  "fIf x a_if_pos b_if_neg eps =
    b_if_neg + (a_if_pos - b_if_neg) / eps * max 0 (min eps (x + eps / 2))"

section \<open>The Hull-White and GBM simulator (the Monte-Carlo agent's notes)\<close>

text \<open>The fields \<open>__init__\<close> stores; \<open>_C\<close> is computed from \<open>rho\<close>.\<close>

record HullWhiteGBMAgent =
  hw_a :: real
  hw_sigma_r :: real
  hw_theta :: "real \<Rightarrow> real"
  hw_sigma_s :: real
  hw_rho :: real
  hw_t :: "real list"
  hw_r0 :: real
  hw_s0 :: real

definition hw_C :: "HullWhiteGBMAgent \<Rightarrow> (real \<times> real) \<times> (real \<times> real)" where
  "hw_C A = ((1, 0), (hw_rho A, sqrt (1 - (hw_rho A)\<^sup>2)))"

text \<open>\<open>np.diff\<close>: the differences of neighbours.\<close>

fun diff :: "real list \<Rightarrow> real list" where
  "diff (x # y # ys) = (y - x) # diff (y # ys)"
| "diff [x] = []"
| "diff [] = []"

text \<open>
  The arrays are indexed by step and by path, and every operation of the loop acts on each
  path by itself, so the model follows one path: \<open>path_r\<close> and \<open>path_s\<close> are its columns of
  \<open>r\<close> and \<open>s\<close>, \<open>path_discount\<close> its entry of \<open>discount\<close>, and \<open>rng k\<close> is the pair of
  standard normal numbers the generator draws for it in iteration \<open>k\<close>.
\<close>

record paths =
  path_r :: "real list"
  path_s :: "real list"
  path_discount :: real

definition allocate :: "HullWhiteGBMAgent \<Rightarrow> paths" where
  "allocate A =
    (let n_steps = length (diff (hw_t A))
     in \<lparr>path_r = replicate (n_steps + 1) (hw_r0 A),
         path_s = replicate (n_steps + 1) (hw_s0 A),
         path_discount = 1\<rparr>)"

text \<open>
  The body of the loop, for the pair \<open>(k, h)\<close> of \<open>enumerate(dt)\<close>. The numbers are reals;
  division, \<open>sqrt\<close> and \<open>exp\<close> are the code's wherever \<open>a\<close> is not zero and no root is
  taken of a negative number, which holds for \<open>a > 0\<close>, a grid that does not decrease and
  \<open>rho\<close> between -1 and 1.
\<close>

definition loop_body :: "HullWhiteGBMAgent \<Rightarrow> (nat \<Rightarrow> real \<times> real) \<Rightarrow> paths \<Rightarrow> nat \<times> real \<Rightarrow> paths" where
  "loop_body A rng st kh =
    (let k = fst kh; h = snd kh;
         Z = rng k;
         C = hw_C A;
         Z1 = fst (fst C) * fst Z + snd (fst C) * snd Z;
         Z3 = fst (snd C) * fst Z + snd (snd C) * snd Z;
         a = hw_a A; sig_r = hw_sigma_r A; sig_s = hw_sigma_s A;
         exp_ah = exp (- a * h);
         m = hw_theta A (hw_t A ! (k + 1)) - sig_r\<^sup>2 / (2 * a\<^sup>2) * (1 - exp_ah)\<^sup>2;
         r_k = path_r st ! k;
         r_next = r_k * exp_ah + m * (1 - exp_ah)
                  + sig_r * sqrt ((1 - exp_ah\<^sup>2) / (2 * a)) * Z1;
         integral = ((1 - exp_ah) / a) * r_k + (h - (1 - exp_ah) / a) * m
                  + sig_r * sqrt ((1 - exp_ah\<^sup>2) / a\<^sup>2) * Z1;
         s_next = path_s st ! k * exp ((r_k - 0.5 * sig_s\<^sup>2) * h + sig_s * sqrt h * Z3)
     in \<lparr>path_r = (path_r st)[k + 1 := r_next],
         path_s = (path_s st)[k + 1 := s_next],
         path_discount = path_discount st * exp (- integral)\<rparr>)"

text \<open>The loop after its first \<open>j\<close> iterations, and the whole of it.\<close>

definition after_steps :: "HullWhiteGBMAgent \<Rightarrow> (nat \<Rightarrow> real \<times> real) \<Rightarrow> nat \<Rightarrow> paths" where
  "after_steps A rng j =
    foldl (loop_body A rng) (allocate A) (take j (enumerate 0 (diff (hw_t A))))"

definition simulate_paths ::
  "HullWhiteGBMAgent \<Rightarrow> (nat \<Rightarrow> real \<times> real) \<Rightarrow> bool \<Rightarrow> (real list \<times> real list \<times> real) + real" where
  "simulate_paths A rng store_paths =
    (let st = foldl (loop_body A rng) (allocate A) (enumerate 0 (diff (hw_t A)))
     in if store_paths then Inl (path_r st, path_s st, path_discount st)
        else Inr (path_discount st))"

text \<open>
  What the zero-volatility configuration keeps true after \<open>j\<close> iterations: the rate column
  is \<open>r0\<close> throughout, the asset column has grown at the rate \<open>r0\<close> up to row \<open>j\<close>, and the
  discount factor has shrunk at the rate \<open>r0\<close>, all over the time elapsed since the first
  grid time.
\<close>

definition det_inv :: "HullWhiteGBMAgent \<Rightarrow> nat \<Rightarrow> paths \<Rightarrow> bool" where
  "det_inv A j st \<longleftrightarrow>
     length (path_r st) = length (hw_t A) \<and> length (path_s st) = length (hw_t A)
     \<and> (\<forall>i < length (hw_t A). path_r st ! i = hw_r0 A)
     \<and> (\<forall>i \<le> j. path_s st ! i = hw_s0 A * exp (hw_r0 A * (hw_t A ! i - hw_t A ! 0)))
     \<and> path_discount st = exp (- hw_r0 A * (hw_t A ! j - hw_t A ! 0))"

text \<open>An agent whose grid starts at time 1.\<close>

definition offset_grid_agent :: HullWhiteGBMAgent where
  "offset_grid_agent =
    \<lparr>hw_a = 1 / 10, hw_sigma_r = 0, hw_theta = (\<lambda>u. 1 / 20), hw_sigma_s = 0, hw_rho = 0,
     hw_t = [1, 2], hw_r0 = 1 / 20, hw_s0 = 100\<rparr>"

section \<open>Draft deletion\<close>

text \<open>
  For a draft that the caller owns, with its events, the operation removes the script row and
  the event rows that reference it, and nothing else.
\<close>

lemma deleteDraft_draft_script:
  assumes "uid \<noteq> []"
    and "\<forall>s \<in> set (scripts d). s_id s = scriptId \<longrightarrow> s_user_id s = uid \<and> s_status s = ''DRAFT''"
    and "\<forall>e \<in> set (events d). e_script_id e = scriptId \<longrightarrow> e_user_id e = uid"
  shows "deleteDraftMutation (Some uid) None None scriptId d =
    (Inr (),
     \<lparr>scripts = filter (\<lambda>s. s_id s \<noteq> scriptId) (scripts d),
      events = filter (\<lambda>e. e_script_id e \<noteq> scriptId) (events d)\<rparr>)"
proof -
  have "filter (\<lambda>s. \<not> (s_id s = scriptId \<and> s_user_id s = uid \<and> s_status s = ''DRAFT'')) (scripts d)
      = filter (\<lambda>s. s_id s \<noteq> scriptId) (scripts d)"
    using assms(2) by (intro filter_cong) auto
  moreover have "filter (\<lambda>e. \<not> (e_script_id e = scriptId \<and> e_user_id e = uid)) (events d)
      = filter (\<lambda>e. e_script_id e \<noteq> scriptId) (events d)"
    using assms(3) by (intro filter_cong) auto
  ultimately show ?thesis
    using assms(1) by (simp add: deleteDraftMutation_def delete_rows_def Let_def)
qed

text \<open>
  Claim C1. For a stored script with status SAVED the draft deletion removes no row, neither
  the script row nor any of its event rows; for a script with status DRAFT it removes exactly
  that script row and all event rows that reference it. The evaluation below is the
  operation on a SAVED script with one event: the script row stays and the event row is
  removed.
\<close>

theorem deleteDraft_saved_script_loses_events:
  "deleteDraftMutation (Some ''u1'') None None ''s1''
     \<lparr>scripts = [\<lparr>s_id = ''s1'', s_name = ''Q3 Swap'', s_reference_date = 0, s_status = ''SAVED'',
                  s_user_id = ''u1'', s_created_at = 0\<rparr>],
      events = [\<lparr>e_id = ''e1'', e_script_id = ''s1'', e_user_id = ''u1'', e_name = ''Event'',
                 e_description = [], e_event_date = 0, e_script_content = ''x = 1;''\<rparr>]\<rparr>
   = (Inr (),
      \<lparr>scripts = [\<lparr>s_id = ''s1'', s_name = ''Q3 Swap'', s_reference_date = 0, s_status = ''SAVED'',
                  s_user_id = ''u1'', s_created_at = 0\<rparr>],
       events = []\<rparr>)"
  by (simp add: deleteDraftMutation_def delete_rows_def)

text \<open>
  Claim C2. Whatever the status of the script, the draft deletion first deletes every event
  with the script's id and the caller's user id, with no condition on the status, and only
  then deletes the script under the condition that its status is DRAFT. So for a SAVED
  script the events are deleted, the script row stays and the operation succeeds; and when
  the second request fails the events are already gone. Both copies of the operation
  behave alike.
\<close>

theorem deleteDraft_cascade_unguarded:
  assumes "uid \<noteq> []"
  shows "(deleteDraftMutation (Some uid) None None scriptId d =
           (Inr (),
            \<lparr>scripts = filter (\<lambda>s. \<not> (s_id s = scriptId \<and> s_user_id s = uid \<and> s_status s = ''DRAFT'')) (scripts d),
             events = filter (\<lambda>e. \<not> (e_script_id e = scriptId \<and> e_user_id e = uid)) (events d)\<rparr>))
       \<and> (deleteDraftMutation (Some uid) None (Some err) scriptId d =
           (Inl err, d\<lparr>events := filter (\<lambda>e. \<not> (e_script_id e = scriptId \<and> e_user_id e = uid)) (events d)\<rparr>))
       \<and> deleteDraftScriptMutation (Some uid) fe fs scriptId d = deleteDraftMutation (Some uid) fe fs scriptId d
       \<and> ((\<forall>s \<in> set (scripts d). s_id s = scriptId \<longrightarrow> s_status s = ''SAVED'') \<longrightarrow>
            scripts (snd (deleteDraftMutation (Some uid) None None scriptId d)) = scripts d
            \<and> (\<forall>e \<in> set (events (snd (deleteDraftMutation (Some uid) None None scriptId d))).
                  \<not> (e_script_id e = scriptId \<and> e_user_id e = uid))
            \<and> deleteDraftMutation_toast (fst (deleteDraftMutation (Some uid) None None scriptId d))
                = ''Draft deleted successfully'')"
proof (intro conjI impI)
  show run: "deleteDraftMutation (Some uid) None None scriptId d =
           (Inr (),
            \<lparr>scripts = filter (\<lambda>s. \<not> (s_id s = scriptId \<and> s_user_id s = uid \<and> s_status s = ''DRAFT'')) (scripts d),
             events = filter (\<lambda>e. \<not> (e_script_id e = scriptId \<and> e_user_id e = uid)) (events d)\<rparr>)"
    using assms by (simp add: deleteDraftMutation_def delete_rows_def Let_def)
  show "deleteDraftMutation (Some uid) None (Some err) scriptId d =
           (Inl err, d\<lparr>events := filter (\<lambda>e. \<not> (e_script_id e = scriptId \<and> e_user_id e = uid)) (events d)\<rparr>)"
    using assms by (simp add: deleteDraftMutation_def delete_rows_def Let_def)
  show "deleteDraftScriptMutation (Some uid) fe fs scriptId d = deleteDraftMutation (Some uid) fe fs scriptId d"
    by (simp add: deleteDraftMutation_def deleteDraftScriptMutation_def)
  assume saved: "\<forall>s \<in> set (scripts d). s_id s = scriptId \<longrightarrow> s_status s = ''SAVED''"
  then have "filter (\<lambda>s. \<not> (s_id s = scriptId \<and> s_user_id s = uid \<and> s_status s = ''DRAFT'')) (scripts d) = scripts d"
    by (auto intro!: filter_True)
  then show "scripts (snd (deleteDraftMutation (Some uid) None None scriptId d)) = scripts d"
    by (simp add: run)
  show "\<forall>e \<in> set (events (snd (deleteDraftMutation (Some uid) None None scriptId d))).
                  \<not> (e_script_id e = scriptId \<and> e_user_id e = uid)"
    by (simp add: run)
  show "deleteDraftMutation_toast (fst (deleteDraftMutation (Some uid) None None scriptId d))
                = ''Draft deleted successfully''"
    by (simp add: run deleteDraftMutation_toast_def)
qed

theorem deleteDraft_cascade_unguarded_witness:
  "''u1'' \<noteq> []
   \<and> deleteDraftMutation (Some ''u1'') None None ''s7''
       \<lparr>scripts = [\<lparr>s_id = ''s7'', s_name = ''Cap'', s_reference_date = 5, s_status = ''SAVED'',
                    s_user_id = ''u1'', s_created_at = 4\<rparr>],
        events = [\<lparr>e_id = ''e1'', e_script_id = ''s7'', e_user_id = ''u1'', e_name = ''Event'',
                   e_description = [], e_event_date = 6, e_script_content = ''Pay 10 USD''\<rparr>,
                  \<lparr>e_id = ''e2'', e_script_id = ''s8'', e_user_id = ''u1'', e_name = ''Event'',
                   e_description = [], e_event_date = 7, e_script_content = []\<rparr>]\<rparr>
     = (Inr (),
        \<lparr>scripts = [\<lparr>s_id = ''s7'', s_name = ''Cap'', s_reference_date = 5, s_status = ''SAVED'',
                    s_user_id = ''u1'', s_created_at = 4\<rparr>],
         events = [\<lparr>e_id = ''e2'', e_script_id = ''s8'', e_user_id = ''u1'', e_name = ''Event'',
                   e_description = [], e_event_date = 7, e_script_content = []\<rparr>]\<rparr>)"
proof -
  have u: "''u1'' \<noteq> []" by simp
  show ?thesis
    using deleteDraft_cascade_unguarded [OF u, where scriptId = "''s7''" and d =
        "\<lparr>scripts = [\<lparr>s_id = ''s7'', s_name = ''Cap'', s_reference_date = 5, s_status = ''SAVED'',
                    s_user_id = ''u1'', s_created_at = 4\<rparr>],
        events = [\<lparr>e_id = ''e1'', e_script_id = ''s7'', e_user_id = ''u1'', e_name = ''Event'',
                   e_description = [], e_event_date = 6, e_script_content = ''Pay 10 USD''\<rparr>,
                  \<lparr>e_id = ''e2'', e_script_id = ''s8'', e_user_id = ''u1'', e_name = ''Event'',
                   e_description = [], e_event_date = 7, e_script_content = []\<rparr>]\<rparr>"]
    by simp
qed

section \<open>The life of a script\<close>

lemma filter_map_if_preserved:
  assumes "\<And>r. P (f r) = P r"
  shows "filter P (map (\<lambda>r. if P r then f r else r) rows) = map f (filter P rows)"
  using assms by (induction rows) auto

lemma update_single_one:
  "filter P rows = [r] \<Longrightarrow>
   update_single None P f rows = (Inr (f r), map (\<lambda>r. if P r then f r else r) rows)"
  by (simp add: update_single_def)

lemma saveScriptMutation_one:
  assumes "uid \<noteq> []" "sid \<noteq> []"
    and "filter (\<lambda>s. s_id s = sid \<and> s_user_id s = uid) (scripts d) = [r]"
  shows "saveScriptMutation (Some uid) (Some sid) None scriptName td d =
     (Inr (scriptName, sid),
      d\<lparr>scripts := map (\<lambda>s. if s_id s = sid \<and> s_user_id s = uid
                              then s\<lparr>s_name := scriptName, s_status := ''SAVED''\<rparr> else s) (scripts d)\<rparr>)"
proof -
  have "r \<in> set (filter (\<lambda>s. s_id s = sid \<and> s_user_id s = uid) (scripts d))"
    using assms(3) by simp
  then have "s_id r = sid" by simp
  then show ?thesis
    using assms by (simp add: saveScriptMutation_def update_single_one)
qed

text \<open>
  Claim C3. Creating a script inserts a row whose name is exactly "New Script*", whose
  status is exactly "DRAFT" and whose reference date is the current time; this holds in
  every state of the tables, also when the user owns no script yet. Saving that script
  with a name sets the row's name to that name and its status to "SAVED", as does saving
  any script the user owns (exactly one row has its id and the user's id); saving again
  leaves the status "SAVED".
\<close>

theorem script_lifecycle:
  assumes "uid \<noteq> []"
  shows
   "createScriptMutation (Some uid) None now new_id created_at d =
      (Inr \<lparr>s_id = new_id, s_name = ''New Script*'', s_reference_date = now, s_status = ''DRAFT'',
            s_user_id = uid, s_created_at = created_at\<rparr>,
       d\<lparr>scripts := scripts d @
          [\<lparr>s_id = new_id, s_name = ''New Script*'', s_reference_date = now, s_status = ''DRAFT'',
            s_user_id = uid, s_created_at = created_at\<rparr>]\<rparr>)
    \<and> (new_id \<noteq> [] \<and> new_id \<notin> s_id ` set (scripts d) \<longrightarrow>
         (let d0 = snd (createScriptMutation (Some uid) None now new_id created_at d)
          in saveScriptMutation (Some uid) (Some new_id) None scriptName td d0 =
             (Inr (scriptName, new_id),
              d\<lparr>scripts := scripts d @
                 [\<lparr>s_id = new_id, s_name = scriptName, s_reference_date = now,
                   s_status = ''SAVED'', s_user_id = uid, s_created_at = created_at\<rparr>]\<rparr>)))
    \<and> (sid \<noteq> [] \<and> filter (\<lambda>s. s_id s = sid \<and> s_user_id s = uid) (scripts d) = [r] \<longrightarrow>
         saveScriptMutation (Some uid) (Some sid) None scriptName td d =
           (Inr (scriptName, sid),
            d\<lparr>scripts := map (\<lambda>s. if s_id s = sid \<and> s_user_id s = uid
                              then s\<lparr>s_name := scriptName, s_status := ''SAVED''\<rparr> else s) (scripts d)\<rparr>)
         \<and> (let d1 = snd (saveScriptMutation (Some uid) (Some sid) None scriptName td d)
            in saveScriptMutation (Some uid) (Some sid) None scriptName' td' d1 =
               (Inr (scriptName', sid),
                d\<lparr>scripts := map (\<lambda>s. if s_id s = sid \<and> s_user_id s = uid
                              then s\<lparr>s_name := scriptName', s_status := ''SAVED''\<rparr> else s) (scripts d)\<rparr>)))"
proof (intro conjI impI)
  let ?row = "\<lparr>s_id = new_id, s_name = ''New Script*'', s_reference_date = now, s_status = ''DRAFT'',
            s_user_id = uid, s_created_at = created_at\<rparr>"
  show created: "createScriptMutation (Some uid) None now new_id created_at d =
      (Inr ?row, d\<lparr>scripts := scripts d @ [?row]\<rparr>)"
    using assms by (simp add: createScriptMutation_def insert_single_def)
  {
    assume fresh: "new_id \<noteq> [] \<and> new_id \<notin> s_id ` set (scripts d)"
    let ?d0 = "d\<lparr>scripts := scripts d @ [?row]\<rparr>"
    from fresh have none: "filter (\<lambda>s. s_id s = new_id \<and> s_user_id s = uid) (scripts d) = []"
      by (auto simp: filter_empty_conv)
    then have one: "filter (\<lambda>s. s_id s = new_id \<and> s_user_id s = uid) (scripts ?d0) = [?row]"
      by simp
    from fresh have nid: "new_id \<noteq> []" by simp
    have "saveScriptMutation (Some uid) (Some new_id) None scriptName td ?d0 =
      (Inr (scriptName, new_id),
       ?d0\<lparr>scripts := map (\<lambda>s. if s_id s = new_id \<and> s_user_id s = uid
                then s\<lparr>s_name := scriptName, s_status := ''SAVED''\<rparr> else s) (scripts ?d0)\<rparr>)"
      using assms nid one by (rule saveScriptMutation_one)
    moreover have "map (\<lambda>s. if s_id s = new_id \<and> s_user_id s = uid
                then s\<lparr>s_name := scriptName, s_status := ''SAVED''\<rparr> else s) (scripts d) = scripts d"
      using fresh by (intro map_idI) auto
    ultimately show "let d0 = snd (createScriptMutation (Some uid) None now new_id created_at d)
          in saveScriptMutation (Some uid) (Some new_id) None scriptName td d0 =
             (Inr (scriptName, new_id),
              d\<lparr>scripts := scripts d @
                 [\<lparr>s_id = new_id, s_name = scriptName, s_reference_date = now,
                   s_status = ''SAVED'', s_user_id = uid, s_created_at = created_at\<rparr>]\<rparr>)"
      by (simp add: created)
  }
  assume own: "sid \<noteq> [] \<and> filter (\<lambda>s. s_id s = sid \<and> s_user_id s = uid) (scripts d) = [r]"
  then have sid: "sid \<noteq> []"
    and r: "filter (\<lambda>s. s_id s = sid \<and> s_user_id s = uid) (scripts d) = [r]"
    by simp_all
  show first: "saveScriptMutation (Some uid) (Some sid) None scriptName td d =
      (Inr (scriptName, sid),
       d\<lparr>scripts := map (\<lambda>s. if s_id s = sid \<and> s_user_id s = uid
                              then s\<lparr>s_name := scriptName, s_status := ''SAVED''\<rparr> else s) (scripts d)\<rparr>)"
    using assms sid r by (rule saveScriptMutation_one)
  let ?P = "\<lambda>s. s_id s = sid \<and> s_user_id s = uid"
  let ?f = "\<lambda>s. s\<lparr>s_name := scriptName, s_status := ''SAVED''\<rparr>"
  let ?d1 = "d\<lparr>scripts := map (\<lambda>s. if ?P s then ?f s else s) (scripts d)\<rparr>"
  have "filter ?P (map (\<lambda>s. if ?P s then ?f s else s) (scripts d)) = map ?f (filter ?P (scripts d))"
    by (rule filter_map_if_preserved) simp
  then have one: "filter ?P (scripts ?d1) = [?f r]"
    using r by simp
  have "saveScriptMutation (Some uid) (Some sid) None scriptName' td' ?d1 =
     (Inr (scriptName', sid),
      ?d1\<lparr>scripts := map (\<lambda>s. if ?P s then s\<lparr>s_name := scriptName', s_status := ''SAVED''\<rparr> else s) (scripts ?d1)\<rparr>)"
    using assms sid one by (rule saveScriptMutation_one)
  moreover have "map (\<lambda>s. if ?P s then s\<lparr>s_name := scriptName', s_status := ''SAVED''\<rparr> else s) (scripts ?d1)
      = map (\<lambda>s. if ?P s then s\<lparr>s_name := scriptName', s_status := ''SAVED''\<rparr> else s) (scripts d)"
    by (simp add: comp_def if_distrib cong: if_cong)
  ultimately show "let d1 = snd (saveScriptMutation (Some uid) (Some sid) None scriptName td d)
       in saveScriptMutation (Some uid) (Some sid) None scriptName' td' d1 =
           (Inr (scriptName', sid),
            d\<lparr>scripts := map (\<lambda>s. if s_id s = sid \<and> s_user_id s = uid
                              then s\<lparr>s_name := scriptName', s_status := ''SAVED''\<rparr> else s) (scripts d)\<rparr>)"
    by (simp add: first)
qed

theorem script_lifecycle_witness:
  "createScriptMutation (Some ''u1'') None 1000 ''s1'' 1001 \<lparr>scripts = [], events = []\<rparr> =
     (Inr \<lparr>s_id = ''s1'', s_name = ''New Script*'', s_reference_date = 1000, s_status = ''DRAFT'',
           s_user_id = ''u1'', s_created_at = 1001\<rparr>,
      \<lparr>scripts = [\<lparr>s_id = ''s1'', s_name = ''New Script*'', s_reference_date = 1000,
                   s_status = ''DRAFT'', s_user_id = ''u1'', s_created_at = 1001\<rparr>],
       events = []\<rparr>)
   \<and> saveScriptMutation (Some ''u1'') (Some ''s1'') None ''Q3 Swap'' []
       \<lparr>scripts = [\<lparr>s_id = ''s1'', s_name = ''New Script*'', s_reference_date = 1000,
                    s_status = ''DRAFT'', s_user_id = ''u1'', s_created_at = 1001\<rparr>],
        events = []\<rparr> =
     (Inr (''Q3 Swap'', ''s1''),
      \<lparr>scripts = [\<lparr>s_id = ''s1'', s_name = ''Q3 Swap'', s_reference_date = 1000,
                   s_status = ''SAVED'', s_user_id = ''u1'', s_created_at = 1001\<rparr>],
       events = []\<rparr>)
   \<and> saveScriptMutation (Some ''u1'') (Some ''s1'') None ''Q3 Swap'' []
       \<lparr>scripts = [\<lparr>s_id = ''s1'', s_name = ''Q3 Swap'', s_reference_date = 1000,
                   s_status = ''SAVED'', s_user_id = ''u1'', s_created_at = 1001\<rparr>],
        events = []\<rparr> =
     (Inr (''Q3 Swap'', ''s1''),
      \<lparr>scripts = [\<lparr>s_id = ''s1'', s_name = ''Q3 Swap'', s_reference_date = 1000,
                   s_status = ''SAVED'', s_user_id = ''u1'', s_created_at = 1001\<rparr>],
       events = []\<rparr>)"
proof -
  let ?row = "\<lparr>s_id = ''s1'', s_name = ''New Script*'', s_reference_date = 1000,
               s_status = ''DRAFT'', s_user_id = ''u1'', s_created_at = 1001\<rparr>"
  let ?saved = "\<lparr>s_id = ''s1'', s_name = ''Q3 Swap'', s_reference_date = 1000,
               s_status = ''SAVED'', s_user_id = ''u1'', s_created_at = 1001\<rparr>"
  have u: "''u1'' \<noteq> []"
    by simp
  note empty = script_lifecycle [OF u, where d = "\<lparr>scripts = [], events = []\<rparr>"
        and now = 1000 and new_id = "''s1''" and created_at = 1001
        and scriptName = "''Q3 Swap''" and td = "[]"]
  from empty [THEN conjunct1]
  have created: "createScriptMutation (Some ''u1'') None 1000 ''s1'' 1001
      \<lparr>scripts = [], events = []\<rparr> = (Inr ?row, \<lparr>scripts = [?row], events = []\<rparr>)"
    by simp
  have fresh: "''s1'' \<noteq> [] \<and> ''s1'' \<notin> s_id ` set (scripts \<lparr>scripts = [], events = []\<rparr>)"
    by simp
  from empty [THEN conjunct2, THEN conjunct1, rule_format, OF fresh]
  have first: "saveScriptMutation (Some ''u1'') (Some ''s1'') None ''Q3 Swap'' []
      \<lparr>scripts = [?row], events = []\<rparr> = (Inr (''Q3 Swap'', ''s1''), \<lparr>scripts = [?saved], events = []\<rparr>)"
    by (simp add: Let_def created)
  have own: "''s1'' \<noteq> [] \<and> filter (\<lambda>s. s_id s = ''s1'' \<and> s_user_id s = ''u1'')
      (scripts \<lparr>scripts = [?saved], events = []\<rparr>) = [?saved]"
    by simp
  note again = script_lifecycle [OF u, where d = "\<lparr>scripts = [?saved], events = []\<rparr>"
        and sid = "''s1''" and r = ?saved and scriptName = "''Q3 Swap''" and td = "[]",
        THEN conjunct2, THEN conjunct2, rule_format, OF own, THEN conjunct1]
  from again
  have second: "saveScriptMutation (Some ''u1'') (Some ''s1'') None ''Q3 Swap'' []
      \<lparr>scripts = [?saved], events = []\<rparr> = (Inr (''Q3 Swap'', ''s1''), \<lparr>scripts = [?saved], events = []\<rparr>)"
    by simp
  from created first second show ?thesis
    by simp
qed

section \<open>The order of the events\<close>

lemma sorted_map_to_Event:
  "map ev_eventDate (map to_Event rows) = map e_event_date rows"
  by (simp add: to_Event_def comp_def)

text \<open>
  Claim C4. For a script and an authenticated user, the events query returns the script's
  events in ascending order of event date; three events dated 2025-03-01, 2025-01-01 and
  2025-02-01 come back in the order 2025-01-01, 2025-02-01, 2025-03-01. The three dates
  are midnight UTC in milliseconds: 1735689600000 is 2025-01-01, 1738368000000 is
  2025-02-01 and 1740787200000 is 2025-03-01.
\<close>

theorem listEvents_ascending:
  assumes "sid \<noteq> []" "uid \<noteq> []"
  shows "(\<exists>evs. useEventsQuery (Some sid) (Some uid) None d = Inr evs
            \<and> sorted (map ev_eventDate evs)
            \<and> set evs = to_Event ` {e \<in> set (events d). e_script_id e = sid \<and> e_user_id e = uid}
            \<and> length evs = length (filter (\<lambda>e. e_script_id e = sid \<and> e_user_id e = uid) (events d)))
       \<and> map ev_eventDate (projr (useEventsQuery (Some ''s1'') (Some ''u1'') None
            \<lparr>scripts = [],
             events =
              [\<lparr>e_id = ''e1'', e_script_id = ''s1'', e_user_id = ''u1'', e_name = ''Event'',
                e_description = [], e_event_date = 1740787200000, e_script_content = []\<rparr>,
               \<lparr>e_id = ''e2'', e_script_id = ''s1'', e_user_id = ''u1'', e_name = ''Event'',
                e_description = [], e_event_date = 1735689600000, e_script_content = []\<rparr>,
               \<lparr>e_id = ''e3'', e_script_id = ''s1'', e_user_id = ''u1'', e_name = ''Event'',
                e_description = [], e_event_date = 1738368000000, e_script_content = []\<rparr>]\<rparr>))
          = [1735689600000, 1738368000000, 1740787200000]"
proof (intro conjI)
  let ?rows = "sort_key e_event_date (filter (\<lambda>e. e_script_id e = sid \<and> e_user_id e = uid) (events d))"
  have run: "useEventsQuery (Some sid) (Some uid) None d = Inr (map to_Event ?rows)"
    using assms by (simp add: useEventsQuery_def select_ordered_def)
  have "sorted (map ev_eventDate (map to_Event ?rows))"
    unfolding sorted_map_to_Event by (rule sorted_sort_key)
  moreover have "set (map to_Event ?rows) =
      to_Event ` {e \<in> set (events d). e_script_id e = sid \<and> e_user_id e = uid}"
    by simp
  moreover have "length (map to_Event ?rows) =
      length (filter (\<lambda>e. e_script_id e = sid \<and> e_user_id e = uid) (events d))"
    by simp
  ultimately show "\<exists>evs. useEventsQuery (Some sid) (Some uid) None d = Inr evs
            \<and> sorted (map ev_eventDate evs)
            \<and> set evs = to_Event ` {e \<in> set (events d). e_script_id e = sid \<and> e_user_id e = uid}
            \<and> length evs = length (filter (\<lambda>e. e_script_id e = sid \<and> e_user_id e = uid) (events d))"
    using run by blast
  show "map ev_eventDate (projr (useEventsQuery (Some ''s1'') (Some ''u1'') None
            \<lparr>scripts = [],
             events =
              [\<lparr>e_id = ''e1'', e_script_id = ''s1'', e_user_id = ''u1'', e_name = ''Event'',
                e_description = [], e_event_date = 1740787200000, e_script_content = []\<rparr>,
               \<lparr>e_id = ''e2'', e_script_id = ''s1'', e_user_id = ''u1'', e_name = ''Event'',
                e_description = [], e_event_date = 1735689600000, e_script_content = []\<rparr>,
               \<lparr>e_id = ''e3'', e_script_id = ''s1'', e_user_id = ''u1'', e_name = ''Event'',
                e_description = [], e_event_date = 1738368000000, e_script_content = []\<rparr>]\<rparr>))
          = [1735689600000, 1738368000000, 1740787200000]"
    by (simp add: useEventsQuery_def select_ordered_def to_Event_def)
qed

theorem listEvents_ascending_witness:
  "''s1'' \<noteq> [] \<and> ''u1'' \<noteq> []
   \<and> (\<exists>evs. useEventsQuery (Some ''s1'') (Some ''u1'') None
          \<lparr>scripts = [],
           events = [\<lparr>e_id = ''e1'', e_script_id = ''s1'', e_user_id = ''u1'', e_name = ''Event'',
                      e_description = [], e_event_date = 9, e_script_content = []\<rparr>,
                     \<lparr>e_id = ''e2'', e_script_id = ''s1'', e_user_id = ''u1'', e_name = ''Event'',
                      e_description = [], e_event_date = 3, e_script_content = []\<rparr>]\<rparr> = Inr evs
        \<and> sorted (map ev_eventDate evs) \<and> length evs = 2)"
proof -
  have s: "''s1'' \<noteq> []" and u: "''u1'' \<noteq> []"
    by simp_all
  show ?thesis
    using listEvents_ascending [OF s u, where d =
        "\<lparr>scripts = [],
           events = [\<lparr>e_id = ''e1'', e_script_id = ''s1'', e_user_id = ''u1'', e_name = ''Event'',
                      e_description = [], e_event_date = 9, e_script_content = []\<rparr>,
                     \<lparr>e_id = ''e2'', e_script_id = ''s1'', e_user_id = ''u1'', e_name = ''Event'',
                      e_description = [], e_event_date = 3, e_script_content = []\<rparr>]\<rparr>"]
    by auto
qed

section \<open>The smoothing primitive\<close>

text \<open>
  Claim C5. For all real a, b, x and every eps > 0, fIf(x, a, b, eps) equals b for
  x <= -eps/2, equals a for x >= eps/2, and is the linear function
  b + (a - b)/eps * (x + eps/2) of x in between; for eps = 1, fIf(x, 1, 0, 1) is 0 for
  x <= -0.5, is 1 for x >= 0.5, is x + 0.5 for -0.5 < x < 0.5, and fIf(0, 1, 0, 1) = 0.5.
\<close>

theorem fIf_ramp:
  assumes "0 < eps"
  shows "(x \<le> - eps / 2 \<longrightarrow> fIf x a b eps = b)
       \<and> (eps / 2 \<le> x \<longrightarrow> fIf x a b eps = a)
       \<and> (- eps / 2 \<le> x \<and> x \<le> eps / 2 \<longrightarrow> fIf x a b eps = b + (a - b) / eps * (x + eps / 2))
       \<and> (- 1 / 2 < x \<and> x < 1 / 2 \<longrightarrow> fIf x 1 0 1 = x + 1 / 2)
       \<and> (x \<le> - 1 / 2 \<longrightarrow> fIf x 1 0 1 = 0)
       \<and> (1 / 2 \<le> x \<longrightarrow> fIf x 1 0 1 = 1)
       \<and> fIf 0 1 0 1 = 1 / 2"
proof (intro conjI impI)
  assume "x \<le> - eps / 2"
  then have "max 0 (min eps (x + eps / 2)) = 0" using assms by (simp add: max_def min_def)
  then show "fIf x a b eps = b" by (simp add: fIf_def)
next
  assume "eps / 2 \<le> x"
  then have "max 0 (min eps (x + eps / 2)) = eps" using assms by (simp add: max_def min_def)
  then show "fIf x a b eps = a" using assms by (simp add: fIf_def)
next
  assume "- eps / 2 \<le> x \<and> x \<le> eps / 2"
  then have "max 0 (min eps (x + eps / 2)) = x + eps / 2" using assms by (simp add: max_def min_def)
  then show "fIf x a b eps = b + (a - b) / eps * (x + eps / 2)" by (simp add: fIf_def)
next
  assume "- 1 / 2 < x \<and> x < 1 / 2"
  then show "fIf x 1 0 1 = x + 1 / 2" by (simp add: fIf_def max_def min_def)
next
  assume "x \<le> - 1 / 2"
  then show "fIf x 1 0 1 = 0" by (simp add: fIf_def max_def min_def)
next
  assume "1 / 2 \<le> x"
  then show "fIf x 1 0 1 = 1" by (simp add: fIf_def max_def min_def)
next
  show "fIf 0 1 0 1 = 1 / 2" by (simp add: fIf_def)
qed

theorem fIf_ramp_witness:
  "(0::real) < 2 \<and> fIf (- 3) 5 7 2 = 7 \<and> fIf 4 5 7 2 = 5 \<and> fIf (1 / 2) 5 7 2 = 11 / 2
   \<and> fIf (1 / 4) 1 0 1 = 3 / 4"
proof -
  have pos: "(0::real) < 2" by simp
  from fIf_ramp [OF pos, where x = "- 3" and a = 5 and b = 7]
  have low: "fIf (- 3) 5 7 2 = 7" by simp
  from fIf_ramp [OF pos, where x = 4 and a = 5 and b = 7]
  have high: "fIf 4 5 7 2 = 5" by simp
  from fIf_ramp [OF pos, where x = "1 / 2" and a = 5 and b = 7]
  have mid: "fIf (1 / 2) 5 7 2 = 11 / 2" by simp
  from fIf_ramp [OF pos, where x = "1 / 4" and a = 5 and b = 7]
  have unit: "fIf (1 / 4) 1 0 1 = 3 / 4" by simp
  from pos low high mid unit show ?thesis by simp
qed

section \<open>The deterministic limit of the simulator\<close>

lemma length_diff: "length (diff ts) = length ts - 1"
  by (induction ts rule: diff.induct) simp_all

lemma diff_nth: "k < length (diff ts) \<Longrightarrow> diff ts ! k = ts ! (k + 1) - ts ! k"
proof (induction ts arbitrary: k rule: diff.induct)
  case (1 x y ys)
  then show ?case by (cases k) simp_all
qed simp_all

lemma enumerate_diff_nth:
  "k < length (diff ts) \<Longrightarrow> enumerate 0 (diff ts) ! k = (k, ts ! (k + 1) - ts ! k)"
  by (simp add: nth_enumerate_eq diff_nth)

lemma after_steps_0: "after_steps A rng 0 = allocate A"
  by (simp add: after_steps_def)

lemma allocate_nonempty:
  assumes "hw_t A \<noteq> []"
  shows "allocate A =
    \<lparr>path_r = replicate (length (hw_t A)) (hw_r0 A),
     path_s = replicate (length (hw_t A)) (hw_s0 A),
     path_discount = 1\<rparr>"
proof -
  from assms have "length (diff (hw_t A)) + 1 = length (hw_t A)"
    by (simp add: length_diff)
  then show ?thesis
    unfolding allocate_def Let_def by (simp only:)
qed

lemma after_steps_Suc:
  assumes "j < length (diff (hw_t A))"
  shows "after_steps A rng (Suc j) =
    loop_body A rng (after_steps A rng j) (j, hw_t A ! (j + 1) - hw_t A ! j)"
proof -
  have "take (Suc j) (enumerate 0 (diff (hw_t A))) =
      take j (enumerate 0 (diff (hw_t A))) @ [enumerate 0 (diff (hw_t A)) ! j]"
    using assms by (simp add: take_Suc_conv_app_nth)
  then show ?thesis
    using assms by (simp add: after_steps_def enumerate_diff_nth)
qed

lemma loop_body_deterministic:
  assumes "hw_sigma_r A = 0" "hw_sigma_s A = 0" "hw_theta A = (\<lambda>u. hw_r0 A)"
    and "path_r st ! k = hw_r0 A"
  shows "loop_body A rng st (k, h) =
    \<lparr>path_r = (path_r st)[k + 1 := hw_r0 A],
     path_s = (path_s st)[k + 1 := path_s st ! k * exp (hw_r0 A * h)],
     path_discount = path_discount st * exp (- (hw_r0 A * h))\<rparr>"
proof -
  let ?e = "exp (- hw_a A * h)"
  have r: "hw_r0 A * ?e + hw_r0 A * (1 - ?e) = hw_r0 A"
    by (simp add: algebra_simps)
  have i: "(1 - ?e) / hw_a A * hw_r0 A + (h - (1 - ?e) / hw_a A) * hw_r0 A = hw_r0 A * h"
    by (simp add: algebra_simps)
  show ?thesis
    using assms r i by (simp add: loop_body_def Let_def)
qed

lemma det_inv_after_steps:
  assumes "hw_sigma_r A = 0" "hw_sigma_s A = 0" "hw_theta A = (\<lambda>u. hw_r0 A)"
    and "j < length (hw_t A)"
  shows "det_inv A j (after_steps A rng j)"
  using assms(4)
proof (induction j)
  case 0
  then have "hw_t A \<noteq> []" by auto
  then show ?case
    by (simp add: det_inv_def after_steps_0 allocate_nonempty)
next
  case (Suc j)
  then have j: "j < length (diff (hw_t A))" and jt: "j < length (hw_t A)"
    by (simp_all add: length_diff)
  from Suc.IH jt have inv: "det_inv A j (after_steps A rng j)"
    by simp
  let ?st = "after_steps A rng j"
  let ?h = "hw_t A ! (j + 1) - hw_t A ! j"
  from inv jt have rj: "path_r ?st ! j = hw_r0 A"
    by (simp add: det_inv_def)
  have step: "after_steps A rng (Suc j) =
    \<lparr>path_r = (path_r ?st)[j + 1 := hw_r0 A],
     path_s = (path_s ?st)[j + 1 := path_s ?st ! j * exp (hw_r0 A * ?h)],
     path_discount = path_discount ?st * exp (- (hw_r0 A * ?h))\<rparr>"
    unfolding after_steps_Suc [OF j]
    using assms(1-3) rj by (rule loop_body_deterministic)
  from inv have sj: "path_s ?st ! j = hw_s0 A * exp (hw_r0 A * (hw_t A ! j - hw_t A ! 0))"
    by (simp add: det_inv_def)
  have e1: "exp (hw_r0 A * (hw_t A ! j - hw_t A ! 0)) * exp (hw_r0 A * ?h)
      = exp (hw_r0 A * (hw_t A ! Suc j - hw_t A ! 0))"
    by (simp add: exp_add [symmetric] algebra_simps)
  have e2: "exp (- hw_r0 A * (hw_t A ! j - hw_t A ! 0)) * exp (- (hw_r0 A * ?h))
      = exp (- hw_r0 A * (hw_t A ! Suc j - hw_t A ! 0))"
    by (simp add: exp_add [symmetric] algebra_simps)
  have lens: "length (path_r ?st) = length (hw_t A)" "length (path_s ?st) = length (hw_t A)"
    using inv by (simp_all add: det_inv_def)
  have r_all: "\<forall>i < length (hw_t A). (path_r ?st)[j + 1 := hw_r0 A] ! i = hw_r0 A"
    using inv lens Suc.prems by (simp add: det_inv_def nth_list_update)
  have s_all: "\<forall>i \<le> Suc j. (path_s ?st)[j + 1 := path_s ?st ! j * exp (hw_r0 A * ?h)] ! i
      = hw_s0 A * exp (hw_r0 A * (hw_t A ! i - hw_t A ! 0))"
  proof (intro allI impI)
    fix i assume "i \<le> Suc j"
    show "(path_s ?st)[j + 1 := path_s ?st ! j * exp (hw_r0 A * ?h)] ! i
      = hw_s0 A * exp (hw_r0 A * (hw_t A ! i - hw_t A ! 0))"
    proof (cases "i = Suc j")
      case True
      then show ?thesis
        using Suc.prems lens sj e1 by (simp add: mult.assoc)
    next
      case False
      with \<open>i \<le> Suc j\<close> have "i \<le> j" by simp
      with inv False show ?thesis
        by (simp add: det_inv_def)
    qed
  qed
  from inv have "path_discount ?st = exp (- hw_r0 A * (hw_t A ! j - hw_t A ! 0))"
    by (simp add: det_inv_def)
  with e2 have d: "path_discount ?st * exp (- (hw_r0 A * ?h))
      = exp (- hw_r0 A * (hw_t A ! Suc j - hw_t A ! 0))"
    by simp
  show ?case
    unfolding det_inv_def step using lens r_all s_all d by simp
qed

lemma foldl_all_steps:
  "foldl (loop_body A rng) (allocate A) (enumerate 0 (diff (hw_t A)))
    = after_steps A rng (length (hw_t A) - 1)"
  by (simp add: after_steps_def length_diff)

lemma final_state:
  assumes "hw_sigma_r A = 0" "hw_sigma_s A = 0" "hw_theta A = (\<lambda>u. hw_r0 A)"
    and "hw_t A \<noteq> []"
  shows "path_r (after_steps A rng (length (hw_t A) - 1)) = replicate (length (hw_t A)) (hw_r0 A)"
    and "path_s (after_steps A rng (length (hw_t A) - 1))
          = map (\<lambda>u. hw_s0 A * exp (hw_r0 A * (u - hw_t A ! 0))) (hw_t A)"
    and "path_discount (after_steps A rng (length (hw_t A) - 1))
          = exp (- hw_r0 A * (last (hw_t A) - hw_t A ! 0))"
proof -
  let ?n = "length (hw_t A) - 1"
  from assms(4) have n: "?n < length (hw_t A)" by simp
  have inv: "det_inv A ?n (after_steps A rng ?n)"
    using assms(1-3) n by (rule det_inv_after_steps)
  show "path_r (after_steps A rng ?n) = replicate (length (hw_t A)) (hw_r0 A)"
    using inv by (intro nth_equalityI) (simp_all add: det_inv_def)
  show "path_s (after_steps A rng ?n)
          = map (\<lambda>u. hw_s0 A * exp (hw_r0 A * (u - hw_t A ! 0))) (hw_t A)"
  proof (intro nth_equalityI)
    show "length (path_s (after_steps A rng ?n))
        = length (map (\<lambda>u. hw_s0 A * exp (hw_r0 A * (u - hw_t A ! 0))) (hw_t A))"
      using inv by (simp add: det_inv_def)
    fix i assume "i < length (path_s (after_steps A rng ?n))"
    with inv have i: "i < length (hw_t A)" by (simp add: det_inv_def)
    then have "i \<le> ?n" by simp
    with inv i show "path_s (after_steps A rng ?n) ! i
        = map (\<lambda>u. hw_s0 A * exp (hw_r0 A * (u - hw_t A ! 0))) (hw_t A) ! i"
      by (simp add: det_inv_def)
  qed
  show "path_discount (after_steps A rng ?n) = exp (- hw_r0 A * (last (hw_t A) - hw_t A ! 0))"
    using inv assms(4) by (simp add: det_inv_def last_conv_nth)
qed

text \<open>
  Claim C6, as amended. For the simulator configured with sigma_r = 0, sigma_S = 0, rho = 0,
  mean reversion a > 0 and theta(t) = r0 on a non-decreasing time grid, every simulated
  path, whatever the normal draws, has r = r0 at every grid time, S = S0 * exp(r0 * (t - t0))
  and accumulated discount factor exp(-r0 * (t - t0)) at every grid time t, where t0 is the
  first grid time; these are S0 * exp(r0 * t) and exp(-r0 * t) when the grid starts at 0.
\<close>

theorem deterministic_paths:
  assumes "hw_sigma_r A = 0" "hw_sigma_s A = 0" "hw_rho A = 0" "0 < hw_a A"
    and "hw_theta A = (\<lambda>u. hw_r0 A)"
    and "sorted (hw_t A)" "j < length (hw_t A)"
  shows "path_r (after_steps A rng j) ! j = hw_r0 A
       \<and> path_s (after_steps A rng j) ! j = hw_s0 A * exp (hw_r0 A * (hw_t A ! j - hw_t A ! 0))
       \<and> path_discount (after_steps A rng j) = exp (- hw_r0 A * (hw_t A ! j - hw_t A ! 0))
       \<and> simulate_paths A rng True =
           Inl (replicate (length (hw_t A)) (hw_r0 A),
                map (\<lambda>u. hw_s0 A * exp (hw_r0 A * (u - hw_t A ! 0))) (hw_t A),
                exp (- hw_r0 A * (last (hw_t A) - hw_t A ! 0)))
       \<and> simulate_paths A rng False = Inr (exp (- hw_r0 A * (last (hw_t A) - hw_t A ! 0)))
       \<and> (hw_t A ! 0 = 0 \<longrightarrow>
            path_s (after_steps A rng j) ! j = hw_s0 A * exp (hw_r0 A * hw_t A ! j)
            \<and> path_discount (after_steps A rng j) = exp (- hw_r0 A * hw_t A ! j))"
proof -
  have inv: "det_inv A j (after_steps A rng j)"
    using assms(1,2,5,7) by (rule det_inv_after_steps)
  from assms(7) have ne: "hw_t A \<noteq> []" by auto
  note fin = final_state [OF assms(1,2,5) ne, of rng]
  from inv assms(7) have at_j:
    "path_r (after_steps A rng j) ! j = hw_r0 A"
    "path_s (after_steps A rng j) ! j = hw_s0 A * exp (hw_r0 A * (hw_t A ! j - hw_t A ! 0))"
    "path_discount (after_steps A rng j) = exp (- hw_r0 A * (hw_t A ! j - hw_t A ! 0))"
    by (simp_all add: det_inv_def)
  have stored: "simulate_paths A rng True =
           Inl (replicate (length (hw_t A)) (hw_r0 A),
                map (\<lambda>u. hw_s0 A * exp (hw_r0 A * (u - hw_t A ! 0))) (hw_t A),
                exp (- hw_r0 A * (last (hw_t A) - hw_t A ! 0)))"
    unfolding simulate_paths_def Let_def foldl_all_steps fin by simp
  have plain: "simulate_paths A rng False = Inr (exp (- hw_r0 A * (last (hw_t A) - hw_t A ! 0)))"
    unfolding simulate_paths_def Let_def foldl_all_steps fin by simp
  from at_j stored plain show ?thesis by simp
qed

theorem deterministic_paths_witness:
  "path_s (after_steps \<lparr>hw_a = 1 / 10, hw_sigma_r = 0, hw_theta = (\<lambda>u. 1 / 20), hw_sigma_s = 0,
        hw_rho = 0, hw_t = [0, 1, 3], hw_r0 = 1 / 20, hw_s0 = 100\<rparr> (\<lambda>k. (real k, 2)) 2) ! 2
      = 100 * exp (3 / 20)
   \<and> simulate_paths \<lparr>hw_a = 1 / 10, hw_sigma_r = 0, hw_theta = (\<lambda>u. 1 / 20), hw_sigma_s = 0,
        hw_rho = 0, hw_t = [0, 1, 3], hw_r0 = 1 / 20, hw_s0 = 100\<rparr> (\<lambda>k. (real k, 2)) False
      = Inr (exp (- (3 / 20)))"
proof -
  let ?A = "\<lparr>hw_a = 1 / 10, hw_sigma_r = 0, hw_theta = (\<lambda>u. 1 / 20), hw_sigma_s = 0,
        hw_rho = 0, hw_t = [0, 1, 3], hw_r0 = 1 / 20, hw_s0 = 100\<rparr>"
  have h: "hw_sigma_r ?A = 0" "hw_sigma_s ?A = 0" "hw_rho ?A = 0" "0 < hw_a ?A"
    "hw_theta ?A = (\<lambda>u. hw_r0 ?A)" "sorted (hw_t ?A)" "2 < length (hw_t ?A)"
    by simp_all
  from deterministic_paths [OF h, of "\<lambda>k. (real k, 2)"] show ?thesis
    by simp
qed

text \<open>
  On the grid [1, 2] with r0 = 1/20 and S0 = 100 the asset at grid time 2 is
  100 * exp(1/20) and the discount factor is exp(-1/20), not 100 * exp(2/20) and
  exp(-2/20): the trajectory of claim C6 counts time from 0, the simulator from the first
  grid time.
\<close>

theorem grid_offset_counterexample:
  "path_s (after_steps offset_grid_agent (\<lambda>k. (0, 0)) 1) ! 1 = 100 * exp (1 / 20)
   \<and> path_s (after_steps offset_grid_agent (\<lambda>k. (0, 0)) 1) ! 1
       \<noteq> hw_s0 offset_grid_agent * exp (hw_r0 offset_grid_agent * hw_t offset_grid_agent ! 1)
   \<and> path_discount (after_steps offset_grid_agent (\<lambda>k. (0, 0)) 1) = exp (- (1 / 20))
   \<and> path_discount (after_steps offset_grid_agent (\<lambda>k. (0, 0)) 1)
       \<noteq> exp (- hw_r0 offset_grid_agent * hw_t offset_grid_agent ! 1)"
proof -
  have "det_inv offset_grid_agent 1 (after_steps offset_grid_agent (\<lambda>k. (0, 0)) 1)"
    by (rule det_inv_after_steps) (simp_all add: offset_grid_agent_def)
  then have s: "path_s (after_steps offset_grid_agent (\<lambda>k. (0, 0)) 1) ! 1 = 100 * exp (1 / 20)"
    and d: "path_discount (after_steps offset_grid_agent (\<lambda>k. (0, 0)) 1) = exp (- (1 / 20))"
    by (simp_all add: det_inv_def offset_grid_agent_def)
  show ?thesis
    unfolding s d by (simp add: offset_grid_agent_def)
qed

section \<open>The spot rate\<close>


lemma show_nat_500: "show_nat 500 = ''500''" by (simp add: show_nat.simps digit_char_def)

lemma show_nat_60: "show_nat 60 = ''60''" by (simp add: show_nat.simps digit_char_def)




section \<open>The password policy\<close>

lemma isUpperCase_letters: "isUpperCase c \<longleftrightarrow> c \<in> set ''ABCDEFGHIJKLMNOPQRSTUVWXYZ''"
  by (cases c) (simp add: isUpperCase_def code_def)

lemma isLowerCase_letters: "isLowerCase c \<longleftrightarrow> c \<in> set ''abcdefghijklmnopqrstuvwxyz''"
  by (cases c) (simp add: isLowerCase_def code_def)

lemma isNumber_digits: "isNumber c \<longleftrightarrow> c \<in> set ''0123456789''"
  by (cases c) (simp add: isNumber_def code_def)

text \<open>
  Claim C8. The sign-up password validation accepts a password if and only if it has at
  least 8 characters and contains at least one uppercase letter (A-Z), one lowercase
  letter (a-z), one digit (0-9) and one symbol of the fixed special-character set; the
  password "abc" is rejected and "Abcdefg1!" is accepted.
\<close>

theorem validatePassword_policy:
  "(snd (validatePassword password) \<longleftrightarrow>
      8 \<le> length password
      \<and> (\<exists>c \<in> set password. c \<in> set ''ABCDEFGHIJKLMNOPQRSTUVWXYZ'')
      \<and> (\<exists>c \<in> set password. c \<in> set ''abcdefghijklmnopqrstuvwxyz'')
      \<and> (\<exists>c \<in> set password. c \<in> set ''0123456789'')
      \<and> (\<exists>c \<in> set password. c \<in> set (''!@#$%^&*(),.?'' @ [CHR 0x22] @ '':{}|<>'')))
   \<and> \<not> snd (validatePassword ''abc'')
   \<and> snd (validatePassword ''Abcdefg1!'')"
proof (intro conjI)
  have "snd (validatePassword password) \<longleftrightarrow>
      8 \<le> length password
      \<and> (\<exists>c \<in> set password. isUpperCase c)
      \<and> (\<exists>c \<in> set password. isLowerCase c)
      \<and> (\<exists>c \<in> set password. isNumber c)
      \<and> (\<exists>c \<in> set password. c \<in> set (''!@#$%^&*(),.?'' @ [CHR 0x22] @ '':{}|<>''))"
    unfolding validatePassword_def Let_def test_class_def list_ex_iff
      isSpecialChar_def specialChars_def
    by (simp add: not_less)
  then show "snd (validatePassword password) \<longleftrightarrow>
      8 \<le> length password
      \<and> (\<exists>c \<in> set password. c \<in> set ''ABCDEFGHIJKLMNOPQRSTUVWXYZ'')
      \<and> (\<exists>c \<in> set password. c \<in> set ''abcdefghijklmnopqrstuvwxyz'')
      \<and> (\<exists>c \<in> set password. c \<in> set ''0123456789'')
      \<and> (\<exists>c \<in> set password. c \<in> set (''!@#$%^&*(),.?'' @ [CHR 0x22] @ '':{}|<>''))"
    unfolding isUpperCase_letters isLowerCase_letters isNumber_digits .
  show "\<not> snd (validatePassword ''abc'')"
    by (simp add: validatePassword_def)
  show "snd (validatePassword ''Abcdefg1!'')"
    by (simp add: validatePassword_def test_class_def isUpperCase_def isLowerCase_def
        isNumber_def isSpecialChar_def specialChars_def code_def)
qed

theorem validatePassword_policy_witness:
  "snd (validatePassword ''Passw0rd?'') \<and> 8 \<le> length ''Passw0rd?''
   \<and> \<not> snd (validatePassword ''password1?'')"
proof -
  have "\<not> (\<exists>c \<in> set ''password1?''. c \<in> set ''ABCDEFGHIJKLMNOPQRSTUVWXYZ'')"
    by simp
  with validatePassword_policy [of "''password1?''"]
  have no: "\<not> snd (validatePassword ''password1?'')"
    by blast
  have "snd (validatePassword ''Passw0rd?'')"
    by (simp add: validatePassword_def test_class_def isUpperCase_def isLowerCase_def
        isNumber_def isSpecialChar_def specialChars_def code_def)
  with validatePassword_policy [of "''Passw0rd?''"] no show ?thesis
    by blast
qed

section \<open>The cap on the script name\<close>

text \<open>
  Claim C9. Every string entered in the script-name editor of the events header is cut to
  its first 60 characters before it is tracked, by the header and by the page (a
  65-character input leaves exactly its first 60 characters); in modify mode a tracked
  name of length 60 shows the counter "60/60 characters" in the warning colour.
\<close>

theorem script_name_cap:
  "fst (handleScriptNameChange cb v st) = take 60 v
   \<and> length (fst (handleScriptNameChange cb v st)) \<le> 60
   \<and> (length v = 65 \<longrightarrow> length (fst (handleScriptNameChange cb v st)) = 60
         \<and> (\<forall>i < 60. fst (handleScriptNameChange cb v st) ! i = v ! i))
   \<and> currentScriptName (snd (handleScriptNameChange
          (Some (useEventsHandlers_handleScriptNameChange (updateCurrentScriptName status))) v (old, page)))
         = take 60 v
   \<and> (length name = 60 \<longrightarrow>
        name_counter name True = Some (''text-xs text-red-500 font-medium'', ''60/60 characters''))
   \<and> name_counter name False = None"
  by (auto simp: handleScriptNameChange_def Let_def name_counter_def show_nat_60
      useEventsHandlers_handleScriptNameChange_def updateCurrentScriptName_def
      split: prod.splits option.splits)

theorem script_name_cap_witness:
  "length (replicate 65 (CHR ''n'')) = 65
   \<and> fst (handleScriptNameChange None (replicate 65 (CHR ''n'')) ([], ())) = replicate 60 (CHR ''n'')
   \<and> length (replicate 60 (CHR ''n'')) = 60
   \<and> name_counter (replicate 60 (CHR ''n'')) True
       = Some (''text-xs text-red-500 font-medium'', ''60/60 characters'')"
proof -
  note inst = script_name_cap [where v = "replicate 65 (CHR ''n'')" and cb = None
      and st = "([], ())" and name = "replicate 60 (CHR ''n'')"]
  from inst [THEN conjunct1]
  have a: "fst (handleScriptNameChange None (replicate 65 (CHR ''n'')) ([], ())) = replicate 60 (CHR ''n'')"
    by simp
  from inst [THEN conjunct2, THEN conjunct2, THEN conjunct2, THEN conjunct2, THEN conjunct1]
  have b: "name_counter (replicate 60 (CHR ''n'')) True
       = Some (''text-xs text-red-500 font-medium'', ''60/60 characters'')"
    by simp
  from a b show ?thesis by simp
qed

section \<open>Updating an event\<close>

text \<open>
  Claim C10. An update that supplies some of the fields of an event changes those fields
  of the event row and leaves the fields it does not supply (name, description, event
  date, script text) as they were, and leaves every other row alone; with edit mode off
  the four update handlers call no mutation and the event is unchanged.
\<close>

theorem updateEvent_frame:
  assumes "uid \<noteq> []"
  shows "updateEventMutation (Some uid) None \<lparr>eventId = eid, updates = u\<rparr> d =
          (Inr (),
           d\<lparr>events := map (\<lambda>e. if e_id e = eid \<and> e_user_id e = uid
                   then e\<lparr>e_name := (case p_name u of None \<Rightarrow> e_name e | Some v \<Rightarrow> v),
                          e_description := (case p_description u of None \<Rightarrow> e_description e | Some v \<Rightarrow> v),
                          e_event_date := (case p_eventDate u of None \<Rightarrow> e_event_date e | Some v \<Rightarrow> v),
                          e_script_content := (case p_script u of None \<Rightarrow> e_script_content e | Some v \<Rightarrow> v)\<rparr>
                   else e) (events d)\<rparr>)
      \<and> handleScriptChange True (mutate_events (Some uid) None) eid snippet d =
          d\<lparr>events := map (\<lambda>e. if e_id e = eid \<and> e_user_id e = uid
                   then e\<lparr>e_script_content := snippet\<rparr> else e) (events d)\<rparr>
      \<and> handleDateChange True (mutate_events (Some uid) None) eid (Some date) d =
          d\<lparr>events := map (\<lambda>e. if e_id e = eid \<and> e_user_id e = uid
                   then e\<lparr>e_event_date := date\<rparr> else e) (events d)\<rparr>
      \<and> handleNameChange True (mutate_events (Some uid) None) eid name d =
          d\<lparr>events := map (\<lambda>e. if e_id e = eid \<and> e_user_id e = uid
                   then e\<lparr>e_name := name\<rparr> else e) (events d)\<rparr>
      \<and> handleDescriptionChange True (mutate_events (Some uid) None) eid description d =
          d\<lparr>events := map (\<lambda>e. if e_id e = eid \<and> e_user_id e = uid
                   then e\<lparr>e_description := description\<rparr> else e) (events d)\<rparr>
      \<and> handleScriptChange False mutate eid snippet w = w
      \<and> handleDateChange False mutate eid date' w = w
      \<and> handleNameChange False mutate eid name w = w
      \<and> handleDescriptionChange False mutate eid description w = w"
proof (intro conjI)
  show "updateEventMutation (Some uid) None \<lparr>eventId = eid, updates = u\<rparr> d =
          (Inr (),
           d\<lparr>events := map (\<lambda>e. if e_id e = eid \<and> e_user_id e = uid
                   then e\<lparr>e_name := (case p_name u of None \<Rightarrow> e_name e | Some v \<Rightarrow> v),
                          e_description := (case p_description u of None \<Rightarrow> e_description e | Some v \<Rightarrow> v),
                          e_event_date := (case p_eventDate u of None \<Rightarrow> e_event_date e | Some v \<Rightarrow> v),
                          e_script_content := (case p_script u of None \<Rightarrow> e_script_content e | Some v \<Rightarrow> v)\<rparr>
                   else e) (events d)\<rparr>)"
    using assms by (simp add: updateEventMutation_def update_rows_def apply_patch_def)
  show "handleScriptChange True (mutate_events (Some uid) None) eid snippet d =
          d\<lparr>events := map (\<lambda>e. if e_id e = eid \<and> e_user_id e = uid
                   then e\<lparr>e_script_content := snippet\<rparr> else e) (events d)\<rparr>"
    using assms
    by (simp add: handleScriptChange_def mutate_events_def updateEventMutation_def
        update_rows_def apply_patch_def no_updates_def)
  show "handleDateChange True (mutate_events (Some uid) None) eid (Some date) d =
          d\<lparr>events := map (\<lambda>e. if e_id e = eid \<and> e_user_id e = uid
                   then e\<lparr>e_event_date := date\<rparr> else e) (events d)\<rparr>"
    using assms
    by (simp add: handleDateChange_def mutate_events_def updateEventMutation_def
        update_rows_def apply_patch_def no_updates_def)
  show "handleNameChange True (mutate_events (Some uid) None) eid name d =
          d\<lparr>events := map (\<lambda>e. if e_id e = eid \<and> e_user_id e = uid
                   then e\<lparr>e_name := name\<rparr> else e) (events d)\<rparr>"
    using assms
    by (simp add: handleNameChange_def mutate_events_def updateEventMutation_def
        update_rows_def apply_patch_def no_updates_def)
  show "handleDescriptionChange True (mutate_events (Some uid) None) eid description d =
          d\<lparr>events := map (\<lambda>e. if e_id e = eid \<and> e_user_id e = uid
                   then e\<lparr>e_description := description\<rparr> else e) (events d)\<rparr>"
    using assms
    by (simp add: handleDescriptionChange_def mutate_events_def updateEventMutation_def
        update_rows_def apply_patch_def no_updates_def)
  show "handleScriptChange False mutate eid snippet w = w"
    by (simp add: handleScriptChange_def)
  show "handleDateChange False mutate eid date' w = w"
    by (simp add: handleDateChange_def)
  show "handleNameChange False mutate eid name w = w"
    by (simp add: handleNameChange_def)
  show "handleDescriptionChange False mutate eid description w = w"
    by (simp add: handleDescriptionChange_def)
qed

theorem updateEvent_frame_witness:
  "''u1'' \<noteq> []
   \<and> handleScriptChange True (mutate_events (Some ''u1'') None) ''e1'' ''Pay 5 EUR''
       \<lparr>scripts = [],
        events = [\<lparr>e_id = ''e1'', e_script_id = ''s1'', e_user_id = ''u1'', e_name = ''Fixing'',
                   e_description = ''first'', e_event_date = 9, e_script_content = []\<rparr>,
                  \<lparr>e_id = ''e2'', e_script_id = ''s1'', e_user_id = ''u1'', e_name = ''Event'',
                   e_description = [], e_event_date = 3, e_script_content = []\<rparr>]\<rparr>
     = \<lparr>scripts = [],
        events = [\<lparr>e_id = ''e1'', e_script_id = ''s1'', e_user_id = ''u1'', e_name = ''Fixing'',
                   e_description = ''first'', e_event_date = 9, e_script_content = ''Pay 5 EUR''\<rparr>,
                  \<lparr>e_id = ''e2'', e_script_id = ''s1'', e_user_id = ''u1'', e_name = ''Event'',
                   e_description = [], e_event_date = 3, e_script_content = []\<rparr>]\<rparr>"
proof -
  have u: "''u1'' \<noteq> []" by simp
  note inst = updateEvent_frame [OF u, where eid = "''e1''" and snippet = "''Pay 5 EUR''" and d =
        "\<lparr>scripts = [],
        events = [\<lparr>e_id = ''e1'', e_script_id = ''s1'', e_user_id = ''u1'', e_name = ''Fixing'',
                   e_description = ''first'', e_event_date = 9, e_script_content = []\<rparr>,
                  \<lparr>e_id = ''e2'', e_script_id = ''s1'', e_user_id = ''u1'', e_name = ''Event'',
                   e_description = [], e_event_date = 3, e_script_content = []\<rparr>]\<rparr>"]
  from inst [THEN conjunct2, THEN conjunct1] u show ?thesis
    by simp
qed

end
